theory Spec2Isabelle
  imports Complex_Main
begin

section \<open>Python values carried by the SMPP transport\<close>

text \<open>
  A shallow embedding of \<open>vumi/transports/smpp/transport.py\<close>. A handler of
  \<open>SmppTransport\<close> is a function from the worker state to a pair of the exception it
  raised, if any, and the state it left behind; the state records the Redis store, the
  \<open>throttled\<close> flag and the calls made on the collaborators of the worker.

  The callbacks receive keyword arguments whose values are the scalar fields of a PDU:
  strings, integers or \<open>None\<close>. Text is represented by its UTF-8 bytes.
\<close>

datatype pyval = PNone | PStr string | PInt int

datatype error = KeyError pyval | ValueError | TypeError | AttributeError

text \<open>Truth value of a Python object, as used by \<open>or\<close> and \<open>if\<close>.\<close>

fun truthy :: "pyval \<Rightarrow> bool" where
  "truthy PNone = False"
| "truthy (PStr s) = (s \<noteq> [])"
| "truthy (PInt i) = (i \<noteq> 0)"

definition py_or :: "pyval \<Rightarrow> pyval \<Rightarrow> pyval" where
  "py_or a b = (if truthy a then a else b)"

subsection \<open>Decimal rendering, \<open>str(n)\<close>\<close>

definition digit_char :: "nat \<Rightarrow> char" where
  "digit_char d = ''0123456789'' ! (d mod 10)"

fun digits :: "nat \<Rightarrow> string" where
  "digits n = (if n < 10 then [digit_char n] else digits (n div 10) @ [digit_char (n mod 10)])"

declare digits.simps [simp del]

definition str_int :: "int \<Rightarrow> string" where
  "str_int i = (if i < 0 then CHR ''-'' # digits (nat (- i)) else digits (nat i))"

fun py_str :: "pyval \<Rightarrow> string" where
  "py_str PNone = ''None''"
| "py_str (PStr s) = s"
| "py_str (PInt i) = str_int i"

section \<open>Configuration\<close>

text \<open>The fields of \<open>SmppTransportConfig\<close> that the handlers below read.\<close>

record config =
  third_party_id_expiry :: int
  throttle_delay :: real
  COUNTRY_CODE :: string
  OPERATOR_PREFIX :: "(string \<times> (string \<times> string) list) list"
  OPERATOR_NUMBER :: "(string \<times> string) list"

text \<open>The defaults declared in \<open>SmppTransportConfig\<close>.\<close>

definition default_config :: config where
  "default_config =
     \<lparr>third_party_id_expiry = 60 * 60 * 24 * 7,
      throttle_delay = 1 / 10,
      COUNTRY_CODE = [],
      OPERATOR_PREFIX = [],
      OPERATOR_NUMBER = []\<rparr>"

section \<open>Messages and observable effects\<close>

datatype session_event = SESSION_NEW | SESSION_RESUME | SESSION_CLOSE

text \<open>
  The payload of a bus message (section 3 of the specification): a dictionary whose
  \<open>session_event\<close> key may be absent and whose \<open>transport_metadata\<close> is a dictionary.
\<close>

record message =
  message_id :: pyval
  to_addr :: pyval
  from_addr :: pyval
  content :: pyval
  transport_type :: pyval
  session_event :: "session_event option"
  transport_metadata :: "(string \<times> pyval) list"

record datetime =
  year :: nat
  month :: nat
  day :: nat
  hour :: nat
  minute :: nat
  second :: nat

text \<open>The keyword arguments of \<open>esme_client.submit_sm\<close> as \<open>send_smpp\<close> passes them.\<close>

record submit_sm_args =
  short_message :: string
  destination_addr :: string
  source_addr :: pyval
  message_type :: pyval
  continue_session :: bool
  session_info :: pyval

datatype level = Debug | Msg | Warning | Err

text \<open>A call handed to \<open>callLater\<close>: the bound method and its argument.\<close>

datatype call = SubmitOutboundMessage message

text \<open>
  Everything a handler does to its collaborators (log, bus publishers, failure
  publisher, connectors, reactor, ESME factory), in the order it happens. A \<open>Log\<close>
  entry carries the level and the format string of the call.
\<close>

datatype effect =
    Log level string
  | PauseConnectors
  | UnpauseConnectors
  | PublishAck string pyval
  | PublishNack string pyval
  | PublishFailure message pyval pyval
  | PublishDeliveryReport string string "(string \<times> pyval) list" datetime
  | PublishMessage message
  | CallLater real call
  | StopTrying
  | LoseConnection
  | RedisClose

section \<open>Worker state and the key/value store\<close>

record state =
  redis :: "string \<rightharpoonup> string"
  expiry :: "string \<rightharpoonup> int"
  throttled :: bool
  effects :: "effect list"

definition emit :: "effect list \<Rightarrow> state \<Rightarrow> state" where
  "emit es s = s\<lparr>effects := effects s @ es\<rparr>"

text \<open>What was emitted between an earlier state and a later one.\<close>

definition emitted :: "state \<Rightarrow> state \<Rightarrow> effect list" where
  "emitted s s' = drop (length (effects s)) (effects s')"

text \<open>
  The KVStore adapter (the Redis manager) is not among the sources; its four operations
  follow section 6 of the specification.
\<close>

text \<open>Modelled from the spec: \<open>GET(k)\<close> of the KVStore, the value or nothing.\<close>

definition redis_get :: "state \<Rightarrow> string \<Rightarrow> string option" where
  "redis_get s k = redis s k"

text \<open>Modelled from the spec: \<open>SET(k, v)\<close> of the KVStore; the new value has no lifetime.\<close>

definition redis_set :: "string \<Rightarrow> string \<Rightarrow> state \<Rightarrow> state" where
  "redis_set k v s = s\<lparr>redis := (redis s)(k \<mapsto> v), expiry := (expiry s)(k := None)\<rparr>"

text \<open>Modelled from the spec: \<open>DELETE(k)\<close> of the KVStore.\<close>

definition redis_delete :: "string \<Rightarrow> state \<Rightarrow> state" where
  "redis_delete k s = s\<lparr>redis := (redis s)(k := None), expiry := (expiry s)(k := None)\<rparr>"

text \<open>
  Modelled from the spec: \<open>EXPIRE(k, seconds)\<close> of the KVStore, which gives an
  existing entry a lifetime.
\<close>

definition redis_expire :: "string \<Rightarrow> int \<Rightarrow> state \<Rightarrow> state" where
  "redis_expire k seconds s =
     (if redis s k = None then s else s\<lparr>expiry := (expiry s)(k \<mapsto> seconds)\<rparr>)"

section \<open>Connection callbacks\<close>

definition esme_connected :: "state \<Rightarrow> state" where
  "esme_connected s = emit [Log Msg ''ESME Connected, adding handlers'', UnpauseConnectors] s"

definition esme_disconnected :: "state \<Rightarrow> state" where
  "esme_disconnected s = emit [Log Msg ''ESME Disconnected'', PauseConnectors] s"

definition teardown_transport :: "bool \<Rightarrow> state \<Rightarrow> state" where
  "teardown_transport has_factory s =
     emit ((if has_factory then [StopTrying, LoseConnection] else []) @ [RedisClose]) s"

section \<open>Redis message storing methods\<close>

definition r_message_prefix :: string where
  "r_message_prefix = ''message_json''"

definition r_message_key :: "string \<Rightarrow> string" where
  "r_message_key msg_id = r_message_prefix @ ''#'' @ msg_id"

definition r_get_message_json :: "state \<Rightarrow> string \<Rightarrow> string option" where
  "r_get_message_json s msg_id = redis_get s (r_message_key msg_id)"

text \<open>
  \<open>from_json\<close> stands for \<open>Message.from_json\<close>, which lives outside these sources
  and may raise on text that is not a serialized message.
\<close>

definition r_get_message ::
  "(string \<Rightarrow> error + message) \<Rightarrow> state \<Rightarrow> string \<Rightarrow> error + message option" where
  "r_get_message from_json s msg_id =
     (case r_get_message_json s msg_id of
        None \<Rightarrow> Inr None
      | Some json_string \<Rightarrow>
          if json_string \<noteq> [] then
            (case from_json json_string of Inl e \<Rightarrow> Inl e | Inr m \<Rightarrow> Inr (Some m))
          else Inr None)"

definition r_delete_message :: "string \<Rightarrow> state \<Rightarrow> state" where
  "r_delete_message msg_id s = redis_delete (r_message_key msg_id) s"

section \<open>Redis sequence number storing methods\<close>

definition r_get_id_for_sequence :: "state \<Rightarrow> pyval \<Rightarrow> string option" where
  "r_get_id_for_sequence s sequence_number = redis_get s (py_str sequence_number)"

definition r_delete_for_sequence :: "pyval \<Rightarrow> state \<Rightarrow> state" where
  "r_delete_for_sequence sequence_number s = redis_delete (py_str sequence_number) s"

definition r_set_id_for_sequence :: "pyval \<Rightarrow> string \<Rightarrow> state \<Rightarrow> state" where
  "r_set_id_for_sequence sequence_number ident s = redis_set (py_str sequence_number) ident s"

section \<open>Redis 3rd party id to vumi id mapping\<close>

definition r_third_party_id_key :: "pyval \<Rightarrow> string" where
  "r_third_party_id_key third_party_id = ''3rd_party_id#'' @ py_str third_party_id"

definition r_get_id_for_third_party_id :: "state \<Rightarrow> pyval \<Rightarrow> string option" where
  "r_get_id_for_third_party_id s third_party_id =
     redis_get s (r_third_party_id_key third_party_id)"

definition r_delete_for_third_party_id :: "pyval \<Rightarrow> state \<Rightarrow> state" where
  "r_delete_for_third_party_id third_party_id s =
     redis_delete (r_third_party_id_key third_party_id) s"

definition r_set_id_for_third_party_id :: "config \<Rightarrow> pyval \<Rightarrow> string \<Rightarrow> state \<Rightarrow> state" where
  "r_set_id_for_third_party_id cfg third_party_id ident s =
     (let rkey = r_third_party_id_key third_party_id
      in redis_expire rkey (third_party_id_expiry cfg) (redis_set rkey ident s))"

section \<open>Throttling\<close>

text \<open>\<open>_start_throttling\<close> and \<open>_stop_throttling\<close>.\<close>

definition start_throttling :: "state \<Rightarrow> state" where
  "start_throttling s =
     (if throttled s then s
      else emit [PauseConnectors]
             ((emit [Log Err ''Throttling outbound messages.''] s)\<lparr>throttled := True\<rparr>))"

definition stop_throttling :: "state \<Rightarrow> state" where
  "stop_throttling s =
     (if \<not> throttled s then s
      else emit [UnpauseConnectors]
             ((emit [Log Err ''No longer throttling outbound messages.''] s)\<lparr>throttled := False\<rparr>))"



section \<open>Responses to submit_sm\<close>

definition submit_sm_success :: "string \<Rightarrow> pyval \<Rightarrow> state \<Rightarrow> state" where
  "submit_sm_success sent_sms_id transport_msg_id s =
     emit [Log Debug ''Mapping transport_msg_id=%s to sent_sms_id=%s'',
           Log Debug ''PUBLISHING ACK: (%s -> %s)'',
           PublishAck sent_sms_id transport_msg_id]
       (r_delete_message sent_sms_id s)"

definition submit_sm_failure ::
  "(string \<Rightarrow> error + message) \<Rightarrow> string \<Rightarrow> pyval \<Rightarrow> pyval \<Rightarrow> state \<Rightarrow> error option \<times> state" where
  "submit_sm_failure from_json sent_sms_id reason failure_code s =
     (case r_get_message from_json s sent_sms_id of
        Inl e \<Rightarrow> (Some e, s)
      | Inr None \<Rightarrow> (None, emit [Log Err ''Could not retrieve failed message:%s''] s)
      | Inr (Some error_message) \<Rightarrow>
          (None, emit [PublishNack sent_sms_id reason,
                       PublishFailure error_message PNone reason]
                   (r_delete_message sent_sms_id s)))"

definition submit_sm_throttled ::
  "config \<Rightarrow> (string \<Rightarrow> error + message) \<Rightarrow> string \<Rightarrow> state \<Rightarrow> error option \<times> state" where
  "submit_sm_throttled cfg from_json sent_sms_id s =
     (case r_get_message from_json s sent_sms_id of
        Inl e \<Rightarrow> (Some e, s)
      | Inr None \<Rightarrow> (None, emit [Log Err ''Could not retrieve throttled message:%s''] s)
      | Inr (Some m) \<Rightarrow>
          (None, emit [CallLater (throttle_delay cfg) (SubmitOutboundMessage m)] s))"

definition submit_sm_resp ::
  "config \<Rightarrow> (string \<Rightarrow> error + message) \<Rightarrow> (string \<rightharpoonup> pyval) \<Rightarrow> state \<Rightarrow> error option \<times> state" where
  "submit_sm_resp cfg from_json kwargs s =
     (case kwargs ''message_id'' of
        None \<Rightarrow> (Some (KeyError (PStr ''message_id'')), s)
      | Some transport_msg_id \<Rightarrow>
     (case kwargs ''sequence_number'' of
        None \<Rightarrow> (Some (KeyError (PStr ''sequence_number'')), s)
      | Some sequence_number \<Rightarrow>
     (case r_get_id_for_sequence s sequence_number of
        None \<Rightarrow> (None, emit [Log Err ''Sequence number lookup failed for:%s''] s)
      | Some sent_sms_id \<Rightarrow>
          (let s1 = r_set_id_for_third_party_id cfg transport_msg_id sent_sms_id s;
               s2 = r_delete_for_sequence sequence_number s1
           in case kwargs ''command_status'' of
                None \<Rightarrow> (Some (KeyError (PStr ''command_status'')), s2)
              | Some status \<Rightarrow>
                  if status = PStr ''ESME_ROK'' then
                    (None, stop_throttling (submit_sm_success sent_sms_id transport_msg_id s2))
                  else if status = PStr ''ESME_RTHROTTLED'' then
                    submit_sm_throttled cfg from_json sent_sms_id (start_throttling s2)
                  else
                    (case submit_sm_failure from_json sent_sms_id
                            (py_or status (PStr ''Unspecified'')) PNone s2 of
                       (Some e, s3) \<Rightarrow> (Some e, s3)
                     | (None, s3) \<Rightarrow> (None, stop_throttling s3))))))"



section \<open>Delivery status\<close>

text \<open>\<open>SmppTransport.delivery_status\<close>: membership tests against two literal lists.\<close>

definition delivery_status :: "pyval \<Rightarrow> string" where
  "delivery_status state =
     (if state \<in> set [PStr ''DELIVRD'', PStr ''0''] then ''delivered''
      else if state \<in> set [PStr ''REJECTD''] then ''failed''
      else ''pending'')"

section \<open>Delivery reports\<close>

text \<open>
  \<open>strptime\<close> stands for \<open>datetime.strptime(_, "%y%m%d%H%M%S")\<close> of the Python
  library on a string; it raises \<open>ValueError\<close> on text that is not such a date. The
  keyword argument \<open>delivery_report\<close> is the dictionary of the groups of the
  delivery-report pattern.
\<close>

definition parse_done_date :: "(string \<Rightarrow> datetime option) \<Rightarrow> pyval \<Rightarrow> error + datetime" where
  "parse_done_date strptime v =
     (case v of
        PStr text \<Rightarrow> (case strptime text of None \<Rightarrow> Inl ValueError | Some d \<Rightarrow> Inr d)
      | _ \<Rightarrow> Inl TypeError)"

definition delivery_report ::
  "(string \<Rightarrow> datetime option) \<Rightarrow> (string \<rightharpoonup> (string \<times> pyval) list) \<Rightarrow> state
     \<Rightarrow> error option \<times> state" where
  "delivery_report strptime kwargs s =
     (case kwargs ''delivery_report'' of
        None \<Rightarrow> (Some (KeyError (PStr ''delivery_report'')), s)
      | Some report \<Rightarrow>
     (case map_of report ''done_date'' of
        None \<Rightarrow> (Some (KeyError (PStr ''done_date'')), s)
      | Some done_date \<Rightarrow>
     (case parse_done_date strptime done_date of
        Inl e \<Rightarrow> (Some e, s)
      | Inr date \<Rightarrow>
     (case map_of report ''stat'' of
        None \<Rightarrow> (Some (KeyError (PStr ''stat'')), s)
      | Some stat \<Rightarrow>
     (case map_of report ''id'' of
        None \<Rightarrow> (Some (KeyError (PStr ''id'')), s)
      | Some third_party_id \<Rightarrow>
     (case r_get_id_for_third_party_id s third_party_id of
        None \<Rightarrow>
          (None, emit [Log Warning
             ''Failed to retrieve message id for delivery report. Delivery report from %s discarded.''] s)
      | Some user_message_id \<Rightarrow>
          (None, emit [Log Msg ''PUBLISHING DELIV REPORT: %s %s'',
                       PublishDeliveryReport user_message_id (delivery_status stat) report date] s)))))))"

section \<open>Inbound messages\<close>

text \<open>The dictionary literal indexed by \<open>kwargs['session_event']\<close> in \<open>deliver_sm\<close>.\<close>

definition session_event_table :: "pyval \<rightharpoonup> session_event" where
  "session_event_table =
     [PStr ''new'' \<mapsto> SESSION_NEW, PStr ''continue'' \<mapsto> SESSION_RESUME,
      PStr ''close'' \<mapsto> SESSION_CLOSE]"

definition kwargs_get :: "(string \<rightharpoonup> pyval) \<Rightarrow> string \<Rightarrow> pyval \<Rightarrow> pyval" where
  "kwargs_get kwargs k dflt = (case kwargs k of None \<Rightarrow> dflt | Some v \<Rightarrow> v)"

definition publish_inbound :: "message \<Rightarrow> state \<Rightarrow> error option \<times> state" where
  "publish_inbound m s = (None, emit [Log Msg ''PUBLISHING INBOUND: %s'', PublishMessage m] s)"

definition deliver_sm :: "(string \<rightharpoonup> pyval) \<Rightarrow> state \<Rightarrow> error option \<times> state" where
  "deliver_sm kwargs s =
     (let mtype = kwargs_get kwargs ''message_type'' (PStr ''sms'') in
      case kwargs ''message_id'' of
        None \<Rightarrow> (Some (KeyError (PStr ''message_id'')), s)
      | Some mid \<Rightarrow>
     (case kwargs ''destination_addr'' of
        None \<Rightarrow> (Some (KeyError (PStr ''destination_addr'')), s)
      | Some dst \<Rightarrow>
     (case kwargs ''source_addr'' of
        None \<Rightarrow> (Some (KeyError (PStr ''source_addr'')), s)
      | Some src \<Rightarrow>
     (case kwargs ''short_message'' of
        None \<Rightarrow> (Some (KeyError (PStr ''short_message'')), s)
      | Some text \<Rightarrow>
          (let m = \<lparr>message_id = mid, to_addr = dst, from_addr = src, content = text,
                    transport_type = mtype, session_event = None,
                    transport_metadata = []\<rparr>
           in if mtype = PStr ''ussd'' then
                (case kwargs ''session_event'' of
                   None \<Rightarrow> (Some (KeyError (PStr ''session_event'')), s)
                 | Some ev \<Rightarrow>
                (case session_event_table ev of
                   None \<Rightarrow> (Some (KeyError ev), s)
                 | Some mapped \<Rightarrow>
                     publish_inbound
                       (m\<lparr>session_event := Some mapped,
                          transport_metadata :=
                            [(''session_info'', kwargs_get kwargs ''session_info'' PNone)]\<rparr>) s))
              else publish_inbound m s)))))"

section \<open>Outbound messages\<close>

text \<open>\<open>text.encode('utf-8')\<close>: text is held as its UTF-8 bytes; other values have no such method.\<close>

definition encode_utf8 :: "pyval \<Rightarrow> error + string" where
  "encode_utf8 v = (case v of PStr text \<Rightarrow> Inr text | _ \<Rightarrow> Inl AttributeError)"

text \<open>
  \<open>send_smpp\<close> returns the call it makes on the ESME client. \<open>resolver\<close> stands for
  \<open>vumi.utils.get_operator_number\<close>, which is not among the sources.
\<close>

definition send_smpp ::
  "config \<Rightarrow>
   (pyval \<Rightarrow> string \<Rightarrow> (string \<times> (string \<times> string) list) list \<Rightarrow> (string \<times> string) list \<Rightarrow> pyval) \<Rightarrow>
   message \<Rightarrow> error + submit_sm_args" where
  "send_smpp cfg resolver m =
     (let continue = (session_event m \<noteq> Some SESSION_CLOSE);
          route = resolver (to_addr m) (COUNTRY_CODE cfg) (OPERATOR_PREFIX cfg) (OPERATOR_NUMBER cfg)
      in case encode_utf8 (content m) of
           Inl e \<Rightarrow> Inl e
         | Inr bytes \<Rightarrow>
             Inr \<lparr>short_message = bytes,
                  destination_addr = py_str (to_addr m),
                  source_addr = py_or route (from_addr m),
                  message_type = transport_type m,
                  continue_session = continue,
                  session_info =
                    (case map_of (transport_metadata m) ''session_info'' of
                       None \<Rightarrow> PNone | Some v \<Rightarrow> v)\<rparr>)"

text \<open>
  Modelled from the spec: leading-zero normalization of the operator-number resolver
  (\<open>vumi.utils\<close> is not among the sources); \<open>COUNTRY_CODE\<close> replaces a leading \<open>0\<close>.
\<close>

definition normalize_msisdn :: "string \<Rightarrow> string \<Rightarrow> string" where
  "normalize_msisdn msisdn country_code =
     (case msisdn of
        c # rest \<Rightarrow> if c = CHR ''0'' then country_code @ rest else msisdn
      | [] \<Rightarrow> msisdn)"

text \<open>
  Modelled from the spec: the entry of a prefix table whose key starts the destination.
\<close>

fun lookup_prefix :: "string \<Rightarrow> (string \<times> 'a) list \<Rightarrow> 'a option" where
  "lookup_prefix msisdn [] = None"
| "lookup_prefix msisdn ((k, v) # rest) =
     (if take (length k) msisdn = k then Some v else lookup_prefix msisdn rest)"

text \<open>
  Modelled from the spec: the operator-number resolver. The country-code entry and then
  the prefix entry that start the destination name the network; the source number
  configured for that network, if any, is the result.
\<close>

definition get_operator_number ::
  "pyval \<Rightarrow> string \<Rightarrow> (string \<times> (string \<times> string) list) list \<Rightarrow> (string \<times> string) list \<Rightarrow> pyval" where
  "get_operator_number dest country_code operator_prefix operator_number =
     (let msisdn = normalize_msisdn (py_str dest) country_code
      in case lookup_prefix msisdn operator_prefix of
           None \<Rightarrow> PNone
         | Some prefixes \<Rightarrow>
             (case lookup_prefix msisdn prefixes of
                None \<Rightarrow> PNone
              | Some network \<Rightarrow>
                  (case map_of operator_number network of
                     None \<Rightarrow> PNone
                   | Some number \<Rightarrow> PStr number)))"

section \<open>Sample data\<close>

text \<open>
  A store with four outstanding submits, a toy serialization of messages, sample
  keyword arguments, and the operator tables of the sixth scenario of the specification.
\<close>

definition sample_message :: "string \<Rightarrow> message" where
  "sample_message ident =
     \<lparr>message_id = PStr ident, to_addr = PStr ''27761234567'', from_addr = PStr ''27700000000'',
      content = PStr ''hi'', transport_type = PStr ''sms'', session_event = None,
      transport_metadata = []\<rparr>"

definition sample_from_json :: "string \<Rightarrow> error + message" where
  "sample_from_json json =
     (case json of
        c # rest \<Rightarrow>
          if c = CHR ''{'' \<and> rest \<noteq> [] \<and> last rest = CHR ''}''
          then Inr (sample_message (butlast rest)) else Inl ValueError
      | [] \<Rightarrow> Inl ValueError)"

definition sample_state :: state where
  "sample_state =
     \<lparr>redis = [''1'' \<mapsto> ''m1'', ''2'' \<mapsto> ''m2'', ''3'' \<mapsto> ''m3'', ''4'' \<mapsto> ''m4'',
               ''message_json#m1'' \<mapsto> ''{m1}'', ''message_json#m2'' \<mapsto> ''{m2}'',
               ''message_json#m3'' \<mapsto> ''{m3}'', ''message_json#m4'' \<mapsto> ''{m4}''],
      expiry = Map.empty, throttled = False, effects = []\<rparr>"


definition sample_resp :: "string \<Rightarrow> int \<Rightarrow> string \<Rightarrow> (string \<rightharpoonup> pyval)" where
  "sample_resp smsc_id n status =
     [''message_id'' \<mapsto> PStr smsc_id, ''sequence_number'' \<mapsto> PInt n,
      ''command_status'' \<mapsto> PStr status]"

definition sample_deliver :: "string \<rightharpoonup> pyval" where
  "sample_deliver =
     [''message_id'' \<mapsto> PStr ''in1'', ''destination_addr'' \<mapsto> PStr ''27999'',
      ''source_addr'' \<mapsto> PStr ''27761234567'', ''short_message'' \<mapsto> PStr ''hello'']"

definition sample_operator_config :: config where
  "sample_operator_config =
     default_config\<lparr>OPERATOR_PREFIX := [(''27'', [(''27761'', ''N1'')])],
                    OPERATOR_NUMBER := [(''N1'', ''27999'')]\<rparr>"

text \<open>
  A date parser for the examples only: six two-digit fields \<open>YYMMDDHHMMSS\<close> within
  their ranges. It agrees with \<open>datetime.strptime\<close> on the two texts it is applied
  to below, \<open>130101120500\<close> (accepted) and the empty string (rejected); elsewhere the
  library is more lenient about one-digit fields and stricter about the day of the month.
\<close>

definition digit_value :: "char \<Rightarrow> nat option" where
  "digit_value c =
     (let n = (of_char c :: nat) in if 48 \<le> n \<and> n \<le> 57 then Some (n - 48) else None)"

fun two_digit_fields :: "string \<Rightarrow> nat list option" where
  "two_digit_fields [] = Some []"
| "two_digit_fields [a] = None"
| "two_digit_fields (a # b # rest) =
     (case (digit_value a, digit_value b, two_digit_fields rest) of
        (Some x, Some y, Some fs) \<Rightarrow> Some ((10 * x + y) # fs)
      | _ \<Rightarrow> None)"

definition sample_strptime :: "string \<Rightarrow> datetime option" where
  "sample_strptime text =
     (case two_digit_fields text of
        Some [y, mo, d, h, mi, sec] \<Rightarrow>
          if 1 \<le> mo \<and> mo \<le> 12 \<and> 1 \<le> d \<and> d \<le> 31 \<and> h < 24 \<and> mi < 60 \<and> sec < 60
          then Some \<lparr>year = (if y < 69 then 2000 + y else 1900 + y), month = mo, day = d,
                     hour = h, minute = mi, second = sec\<rparr>
          else None
      | _ \<Rightarrow> None)"

definition sample_report :: "string \<Rightarrow> string \<Rightarrow> (string \<rightharpoonup> (string \<times> pyval) list)" where
  "sample_report smsc_id done_date =
     [''delivery_report'' \<mapsto>
        [(''id'', PStr smsc_id), (''sub'', PStr ''001''), (''dlvrd'', PStr ''001''),
         (''submit_date'', PStr ''130101120000''), (''done_date'', PStr done_date),
         (''stat'', PStr ''DELIVRD''), (''err'', PStr ''000''), (''text'', PStr ''hi'')]]"

section \<open>Auxiliary facts\<close>

subsection \<open>Store keys never collide\<close>

lemma digit_char_in: "digit_char d \<in> set ''0123456789''"
  unfolding digit_char_def by (rule nth_mem) simp

lemma digits_chars: "set (digits n) \<subseteq> set ''0123456789''"
proof (induction n rule: digits.induct)
  case (1 n)
  show ?case
  proof (cases "n < 10")
    case True
    then show ?thesis using digit_char_in [of n] by (simp add: digits.simps [of n])
  next
    case False
    then show ?thesis using 1 digit_char_in [of "n mod 10"]
      by (simp add: digits.simps [of n])
  qed
qed

lemma hash_notin_str_int: "CHR ''#'' \<notin> set (str_int i)"
  using digits_chars [of "nat i"] digits_chars [of "nat (- i)"]
  by (auto simp: str_int_def)

lemma seq_key_neq_third_party_key [simp]:
  "str_int n \<noteq> r_third_party_id_key x" "r_third_party_id_key x \<noteq> str_int n"
proof -
  have "CHR ''#'' \<in> set (r_third_party_id_key x)"
    by (simp add: r_third_party_id_key_def)
  then show "str_int n \<noteq> r_third_party_id_key x"
    using hash_notin_str_int [of n] by auto
  then show "r_third_party_id_key x \<noteq> str_int n" by simp
qed

lemma seq_key_neq_message_key [simp]:
  "str_int n \<noteq> r_message_key x" "r_message_key x \<noteq> str_int n"
proof -
  have "CHR ''#'' \<in> set (r_message_key x)"
    by (simp add: r_message_key_def)
  then show "str_int n \<noteq> r_message_key x"
    using hash_notin_str_int [of n] by auto
  then show "r_message_key x \<noteq> str_int n" by simp
qed

lemma message_key_neq_third_party_key [simp]:
  "r_message_key a \<noteq> r_third_party_id_key b" "r_third_party_id_key b \<noteq> r_message_key a"
  by (auto simp: r_message_key_def r_third_party_id_key_def r_message_prefix_def)

subsection \<open>Effect of the handlers on each state component\<close>

lemmas store_defs =
  redis_get_def redis_set_def redis_delete_def redis_expire_def emit_def
  r_get_message_json_def r_delete_message_def
  r_get_id_for_sequence_def r_delete_for_sequence_def r_set_id_for_sequence_def
  r_get_id_for_third_party_id_def r_delete_for_third_party_id_def
  r_set_id_for_third_party_id_def

lemma emitted_append: "effects s' = effects s @ es \<Longrightarrow> emitted s s' = es"
  by (simp add: emitted_def)

lemma emit_fields:
  "redis (emit es s) = redis s" "expiry (emit es s) = expiry s"
  "throttled (emit es s) = throttled s" "effects (emit es s) = effects s @ es"
  by (simp_all add: emit_def)

lemma r_delete_message_fields:
  "redis (r_delete_message uid s) = (redis s)(r_message_key uid := None)"
  "expiry (r_delete_message uid s) = (expiry s)(r_message_key uid := None)"
  "throttled (r_delete_message uid s) = throttled s"
  "effects (r_delete_message uid s) = effects s"
  by (simp_all add: r_delete_message_def redis_delete_def)

lemma r_get_message_present:
  "redis s (r_message_key uid) = Some json \<Longrightarrow> json \<noteq> [] \<Longrightarrow> from_json json = Inr m \<Longrightarrow>
   r_get_message from_json s uid = Inr (Some m)"
  by (simp add: r_get_message_def r_get_message_json_def redis_get_def)

lemma r_get_message_missing:
  "redis s (r_message_key uid) = None \<or> redis s (r_message_key uid) = Some [] \<Longrightarrow>
   r_get_message from_json s uid = Inr None"
  by (auto simp: r_get_message_def r_get_message_json_def redis_get_def)

lemma after_bind_redis:
  "redis (r_delete_for_sequence (PInt n) (r_set_id_for_third_party_id cfg tid uid s)) =
     ((redis s)(r_third_party_id_key tid \<mapsto> uid))(py_str (PInt n) := None)"
  by (simp add: store_defs Let_def)

lemma after_bind_expiry:
  "expiry (r_delete_for_sequence (PInt n) (r_set_id_for_third_party_id cfg tid uid s)) =
     ((expiry s)(r_third_party_id_key tid \<mapsto> third_party_id_expiry cfg))(py_str (PInt n) := None)"
  by (simp add: store_defs Let_def)

lemma after_bind_rest:
  "throttled (r_delete_for_sequence seq (r_set_id_for_third_party_id cfg tid uid s)) = throttled s"
  "effects (r_delete_for_sequence seq (r_set_id_for_third_party_id cfg tid uid s)) = effects s"
  by (simp_all add: store_defs Let_def)

lemma after_bind_message_key:
  "redis (r_delete_for_sequence (PInt n) (r_set_id_for_third_party_id cfg tid uid' s)) (r_message_key uid)
     = redis s (r_message_key uid)"
  by (simp add: after_bind_redis)

lemma start_throttling_fields:
  "redis (start_throttling s) = redis s"
  "expiry (start_throttling s) = expiry s"
  "throttled (start_throttling s)"
  "effects (start_throttling s) =
     effects s @ (if throttled s then [] else [Log Err ''Throttling outbound messages.'', PauseConnectors])"
  by (simp_all add: start_throttling_def emit_def)

lemma stop_throttling_fields:
  "redis (stop_throttling s) = redis s"
  "expiry (stop_throttling s) = expiry s"
  "\<not> throttled (stop_throttling s)"
  "effects (stop_throttling s) =
     effects s @ (if throttled s then [Log Err ''No longer throttling outbound messages.'', UnpauseConnectors] else [])"
  by (simp_all add: stop_throttling_def emit_def)

lemma start_throttling_message_key:
  "redis (start_throttling (r_delete_for_sequence (PInt n) (r_set_id_for_third_party_id cfg tid uid' s)))
     (r_message_key uid) = redis s (r_message_key uid)"
  by (simp add: start_throttling_fields after_bind_redis)

lemma submit_sm_success_fields:
  "redis (submit_sm_success uid tid s) = (redis s)(r_message_key uid := None)"
  "expiry (submit_sm_success uid tid s) = (expiry s)(r_message_key uid := None)"
  "throttled (submit_sm_success uid tid s) = throttled s"
  "effects (submit_sm_success uid tid s) =
     effects s @ [Log Debug ''Mapping transport_msg_id=%s to sent_sms_id=%s'',
                  Log Debug ''PUBLISHING ACK: (%s -> %s)'', PublishAck uid tid]"
  by (simp_all add: submit_sm_success_def store_defs)

lemma submit_sm_failure_other_key:
  assumes "k \<noteq> r_message_key uid"
  shows "redis (snd (submit_sm_failure from_json uid reason fc s)) k = redis s k"
    and "expiry (snd (submit_sm_failure from_json uid reason fc s)) k = expiry s k"
  using assms
  by (auto simp: submit_sm_failure_def store_defs split: sum.splits option.splits)



lemma submit_sm_throttled_store:
  "redis (snd (submit_sm_throttled cfg from_json uid s)) = redis s"
  "expiry (snd (submit_sm_throttled cfg from_json uid s)) = expiry s"
  by (auto simp: submit_sm_throttled_def store_defs split: sum.splits option.splits)

lemma submit_sm_throttled_present:
  assumes "r_get_message from_json s uid = Inr (Some m)"
  shows "submit_sm_throttled cfg from_json uid s =
           (None, emit [CallLater (throttle_delay cfg) (SubmitOutboundMessage m)] s)"
  using assms by (simp add: submit_sm_throttled_def)

lemma submit_sm_throttled_missing:
  assumes "r_get_message from_json s uid = Inr None"
  shows "submit_sm_throttled cfg from_json uid s =
           (None, emit [Log Err ''Could not retrieve throttled message:%s''] s)"
  using assms by (simp add: submit_sm_throttled_def)

lemma submit_sm_resp_resolved:
  assumes "kwargs ''message_id'' = Some tid"
      and "kwargs ''sequence_number'' = Some seq"
      and "r_get_id_for_sequence s seq = Some uid"
  shows "submit_sm_resp cfg from_json kwargs s =
     (let s2 = r_delete_for_sequence seq (r_set_id_for_third_party_id cfg tid uid s)
      in case kwargs ''command_status'' of
           None \<Rightarrow> (Some (KeyError (PStr ''command_status'')), s2)
         | Some status \<Rightarrow>
             if status = PStr ''ESME_ROK'' then
               (None, stop_throttling (submit_sm_success uid tid s2))
             else if status = PStr ''ESME_RTHROTTLED'' then
               submit_sm_throttled cfg from_json uid (start_throttling s2)
             else
               (case submit_sm_failure from_json uid (py_or status (PStr ''Unspecified'')) PNone s2 of
                  (Some e, s3) \<Rightarrow> (Some e, s3)
                | (None, s3) \<Rightarrow> (None, stop_throttling s3)))"
  using assms by (simp add: submit_sm_resp_def Let_def)

lemma failure_branch_store:
  "redis (snd (case r of (Some e, s3) \<Rightarrow> (Some e, s3) | (None, s3) \<Rightarrow> (None, stop_throttling s3)))
     = redis (snd r)"
  "expiry (snd (case r of (Some e, s3) \<Rightarrow> (Some e, s3) | (None, s3) \<Rightarrow> (None, stop_throttling s3)))
     = expiry (snd r)"
  by (cases r; auto split: option.splits simp: stop_throttling_fields)+



subsection \<open>Pause and resume counts along a stream of responses\<close>















subsection \<open>Unfolding the model on concrete inputs\<close>

lemmas eval_defs =
  sample_message_def sample_from_json_def sample_state_def sample_resp_def
  submit_sm_resp_def submit_sm_success_def submit_sm_failure_def submit_sm_throttled_def
  start_throttling_def stop_throttling_def r_get_message_def store_defs
  r_message_key_def r_message_prefix_def r_third_party_id_key_def
  str_int_def digits.simps digit_char_def py_or_def default_config_def Let_def

section \<open>Verified properties\<close>

text \<open>
  C1, as the code has it: for every submit_sm_resp whose sequence number resolves to a
  user_message_id, the mapping from the third-party id (smsc_id) to that user_message_id
  is stored with lifetime \<open>third_party_id_expiry\<close>, whatever the command_status is;
  the store precedes the branch on the status.
\<close>

theorem third_party_id_stored_for_every_status:
  assumes "kwargs ''message_id'' = Some smsc_id"
      and "kwargs ''sequence_number'' = Some (PInt n)"
      and "r_get_id_for_sequence s (PInt n) = Some user_message_id"
  shows "redis (snd (submit_sm_resp cfg from_json kwargs s)) (r_third_party_id_key smsc_id)
           = Some user_message_id \<and>
         expiry (snd (submit_sm_resp cfg from_json kwargs s)) (r_third_party_id_key smsc_id)
           = Some (third_party_id_expiry cfg)"
proof -
  let ?k = "r_third_party_id_key smsc_id"
  let ?s2 = "r_delete_for_sequence (PInt n) (r_set_id_for_third_party_id cfg smsc_id user_message_id s)"
  have s2: "redis ?s2 ?k = Some user_message_id" "expiry ?s2 ?k = Some (third_party_id_expiry cfg)"
    by (simp_all add: after_bind_redis after_bind_expiry)
  have ok: "redis (stop_throttling (submit_sm_success user_message_id smsc_id ?s2)) ?k = Some user_message_id"
       "expiry (stop_throttling (submit_sm_success user_message_id smsc_id ?s2)) ?k = Some (third_party_id_expiry cfg)"
    using s2 by (simp_all add: stop_throttling_fields submit_sm_success_fields)
  have thr: "redis (snd (submit_sm_throttled cfg from_json user_message_id (start_throttling ?s2))) ?k = Some user_message_id"
       "expiry (snd (submit_sm_throttled cfg from_json user_message_id (start_throttling ?s2))) ?k = Some (third_party_id_expiry cfg)"
    using s2 by (simp_all add: submit_sm_throttled_store start_throttling_fields)
  have fail: "redis (snd (submit_sm_failure from_json user_message_id r PNone ?s2)) ?k = Some user_message_id"
       "expiry (snd (submit_sm_failure from_json user_message_id r PNone ?s2)) ?k = Some (third_party_id_expiry cfg)" for r
    using s2 by (simp_all add: submit_sm_failure_other_key)
  show ?thesis
    unfolding submit_sm_resp_resolved [OF assms] Let_def
    using s2 ok thr fail
    by (simp add: failure_branch_store split: option.splits)
qed

theorem third_party_id_stored_for_every_status_witness:
  "sample_resp ''SM1'' 1 ''ESME_RTHROTTLED'' ''message_id'' = Some (PStr ''SM1'') \<and>
   sample_resp ''SM1'' 1 ''ESME_RTHROTTLED'' ''sequence_number'' = Some (PInt 1) \<and>
   r_get_id_for_sequence sample_state (PInt 1) = Some ''m1'' \<and>
   redis (snd (submit_sm_resp default_config sample_from_json
                 (sample_resp ''SM1'' 1 ''ESME_RTHROTTLED'') sample_state))
     (r_third_party_id_key (PStr ''SM1'')) = Some ''m1'' \<and>
   expiry (snd (submit_sm_resp default_config sample_from_json
                 (sample_resp ''SM1'' 1 ''ESME_RTHROTTLED'') sample_state))
     (r_third_party_id_key (PStr ''SM1'')) = Some 604800"
proof -
  have a: "sample_resp ''SM1'' 1 ''ESME_RTHROTTLED'' ''message_id'' = Some (PStr ''SM1'')"
    by (simp add: sample_resp_def)
  have b: "sample_resp ''SM1'' 1 ''ESME_RTHROTTLED'' ''sequence_number'' = Some (PInt 1)"
    by (simp add: sample_resp_def)
  have c: "r_get_id_for_sequence sample_state (PInt 1) = Some ''m1''"
    by (simp add: eval_defs)
  have d: "third_party_id_expiry default_config = 604800"
    by (simp add: default_config_def)
  show ?thesis
    using a b c d third_party_id_stored_for_every_status [OF a b c, of default_config sample_from_json]
    by simp
qed

text \<open>
  C1 as stated fails: a response with status \<open>ESME_RTHROTTLED\<close> creates the
  third-party-id entry.
\<close>

theorem third_party_id_only_on_success_counterexample:
  "redis sample_state ''3rd_party_id#SM1'' = None \<and>
   redis (snd (submit_sm_resp default_config sample_from_json
                 (sample_resp ''SM1'' 1 ''ESME_RTHROTTLED'') sample_state))
     ''3rd_party_id#SM1'' = Some ''m1''"
  by (simp add: eval_defs)







text \<open>
  C4: a response with status \<open>ESME_RTHROTTLED\<close> whose sequence number resolves
  enters throttling; when the stored body is present it schedules
  \<open>_submit_outbound_message\<close> on that message after \<open>throttle_delay\<close> seconds
  (0.1 by default) and leaves the stored body in place; when the body is missing the
  event is logged and nothing is scheduled.
\<close>

theorem throttled_response_schedules_resubmit:
  assumes "kwargs ''message_id'' = Some smsc_id"
      and "kwargs ''sequence_number'' = Some (PInt n)"
      and "r_get_id_for_sequence s (PInt n) = Some uid"
      and "kwargs ''command_status'' = Some (PStr ''ESME_RTHROTTLED'')"
      and "res = submit_sm_resp cfg from_json kwargs s"
      and "pause = (if throttled s then []
                    else [Log Err ''Throttling outbound messages.'', PauseConnectors])"
  shows "(\<forall>json m. redis s (r_message_key uid) = Some json \<and> json \<noteq> [] \<and> from_json json = Inr m \<longrightarrow>
            fst res = None \<and> throttled (snd res) \<and>
            emitted s (snd res) = pause @ [CallLater (throttle_delay cfg) (SubmitOutboundMessage m)] \<and>
            redis (snd res) (r_message_key uid) = Some json) \<and>
         (redis s (r_message_key uid) = None \<or> redis s (r_message_key uid) = Some [] \<longrightarrow>
            fst res = None \<and> throttled (snd res) \<and>
            emitted s (snd res) = pause @ [Log Err ''Could not retrieve throttled message:%s'']) \<and>
         throttle_delay default_config = 1 / 10"
proof -
  let ?s2 = "r_delete_for_sequence (PInt n) (r_set_id_for_third_party_id cfg smsc_id uid s)"
  let ?s3 = "start_throttling ?s2"
  have res: "res = submit_sm_throttled cfg from_json uid ?s3"
    using assms(4,5) by (simp add: submit_sm_resp_resolved [OF assms(1-3)] Let_def)
  have eff3: "effects ?s3 = effects s @ pause"
    using assms(6) by (simp add: start_throttling_fields after_bind_rest)
  have present: "fst res = None \<and> throttled (snd res) \<and>
      emitted s (snd res) = pause @ [CallLater (throttle_delay cfg) (SubmitOutboundMessage m)] \<and>
      redis (snd res) (r_message_key uid) = Some json"
    if "redis s (r_message_key uid) = Some json" "json \<noteq> []" "from_json json = Inr m" for json m
  proof -
    have "r_get_message from_json ?s3 uid = Inr (Some m)"
      using that
      by (intro r_get_message_present [where json = json]) (simp_all add: start_throttling_message_key)
    then have t: "res = (None, emit [CallLater (throttle_delay cfg) (SubmitOutboundMessage m)] ?s3)"
      unfolding res by (rule submit_sm_throttled_present)
    have "effects (snd res) =
            effects s @ (pause @ [CallLater (throttle_delay cfg) (SubmitOutboundMessage m)])"
      by (simp add: t emit_fields eff3)
    then have "emitted s (snd res) = pause @ [CallLater (throttle_delay cfg) (SubmitOutboundMessage m)]"
      by (rule emitted_append)
    moreover have "fst res = None" "throttled (snd res)"
      "redis (snd res) (r_message_key uid) = Some json"
      using that(1)
      by (simp_all add: t emit_fields start_throttling_fields after_bind_message_key)
    ultimately show ?thesis by simp
  qed
  have missing: "fst res = None \<and> throttled (snd res) \<and>
      emitted s (snd res) = pause @ [Log Err ''Could not retrieve throttled message:%s'']"
    if "redis s (r_message_key uid) = None \<or> redis s (r_message_key uid) = Some []"
  proof -
    have "r_get_message from_json ?s3 uid = Inr None"
      using that by (intro r_get_message_missing) (simp add: start_throttling_message_key)
    then have t: "res = (None, emit [Log Err ''Could not retrieve throttled message:%s''] ?s3)"
      unfolding res by (rule submit_sm_throttled_missing)
    have "effects (snd res) = effects s @ (pause @ [Log Err ''Could not retrieve throttled message:%s''])"
      by (simp add: t emit_fields eff3)
    then have "emitted s (snd res) = pause @ [Log Err ''Could not retrieve throttled message:%s'']"
      by (rule emitted_append)
    moreover have "fst res = None" "throttled (snd res)"
      by (simp_all add: t emit_fields start_throttling_fields)
    ultimately show ?thesis by simp
  qed
  have "throttle_delay default_config = 1 / 10"
    by (simp add: default_config_def)
  then show ?thesis using present missing by blast
qed

theorem throttled_response_schedules_resubmit_witness:
  "(let res = submit_sm_resp default_config sample_from_json
                (sample_resp '''' 1 ''ESME_RTHROTTLED'') sample_state
    in fst res = None \<and> throttled (snd res) \<and>
       emitted sample_state (snd res) =
         [Log Err ''Throttling outbound messages.'', PauseConnectors,
          CallLater (1 / 10) (SubmitOutboundMessage (sample_message ''m1''))] \<and>
       redis (snd res) (r_message_key ''m1'') = Some ''{m1}'') \<and>
   (let res = submit_sm_resp default_config sample_from_json
                (sample_resp '''' 1 ''ESME_RTHROTTLED'')
                (sample_state\<lparr>redis := (redis sample_state)(r_message_key ''m1'' := None)\<rparr>)
    in fst res = None \<and> throttled (snd res) \<and>
       emitted sample_state (snd res) =
         [Log Err ''Throttling outbound messages.'', PauseConnectors,
          Log Err ''Could not retrieve throttled message:%s''])"
proof -
  let ?kw = "sample_resp '''' 1 ''ESME_RTHROTTLED''"
  let ?s' = "sample_state\<lparr>redis := (redis sample_state)(r_message_key ''m1'' := None)\<rparr>"
  have kw: "?kw ''message_id'' = Some (PStr '''')" "?kw ''sequence_number'' = Some (PInt 1)"
    "?kw ''command_status'' = Some (PStr ''ESME_RTHROTTLED'')"
    by (simp_all add: sample_resp_def)
  have seq: "r_get_id_for_sequence sample_state (PInt 1) = Some ''m1''"
    "r_get_id_for_sequence ?s' (PInt 1) = Some ''m1''"
    by (simp_all add: eval_defs)
  have body: "redis sample_state (r_message_key ''m1'') = Some ''{m1}''" "''{m1}'' \<noteq> []"
    "sample_from_json ''{m1}'' = Inr (sample_message ''m1'')"
    "redis ?s' (r_message_key ''m1'') = None"
    by (simp_all add: eval_defs)
  have misc: "\<not> throttled sample_state" "\<not> throttled ?s'" "effects ?s' = effects sample_state"
    "throttle_delay default_config = 1 / 10"
    by (simp_all add: sample_state_def default_config_def)
  note present = throttled_response_schedules_resubmit
    [where cfg = default_config and from_json = sample_from_json,
     OF kw(1) kw(2) seq(1) kw(3) refl refl]
  note missing = throttled_response_schedules_resubmit
    [where cfg = default_config and from_json = sample_from_json,
     OF kw(1) kw(2) seq(2) kw(3) refl refl]
  have e: "emitted sample_state = emitted ?s'"
    by (simp add: emitted_def fun_eq_iff misc)
  show ?thesis
    using present body(1-3) missing body(4) misc
    by (simp add: Let_def e)
qed

text \<open>
  C5: the delivery-status mapping is a total function; it sends the stat values
  \<open>DELIVRD\<close> and \<open>0\<close> to \<open>delivered\<close>, \<open>REJECTD\<close> to \<open>failed\<close>, and every
  other value to \<open>pending\<close>.
\<close>

theorem delivery_status_mapping:
  "delivery_status (PStr ''DELIVRD'') = ''delivered'' \<and>
   delivery_status (PStr ''0'') = ''delivered'' \<and>
   delivery_status (PStr ''REJECTD'') = ''failed'' \<and>
   (\<forall>stat. stat \<notin> {PStr ''DELIVRD'', PStr ''0'', PStr ''REJECTD''} \<longrightarrow>
      delivery_status stat = ''pending'')"
  by (simp add: delivery_status_def)

theorem delivery_status_mapping_witness:
  "PStr ''UNDELIV'' \<notin> {PStr ''DELIVRD'', PStr ''0'', PStr ''REJECTD''} \<and>
   delivery_status (PStr ''UNDELIV'') = ''pending''"
  using delivery_status_mapping by simp

text \<open>
  C6, as the code has it: a submit_sm_resp whose sequence number has no stored
  user_message_id, and a delivery report whose \<open>done_date\<close> parses and whose
  third-party id has no stored user_message_id, are logged and discarded: nothing is
  published, no key is written or deleted, the throttling flag is untouched and
  nothing is torn down. A delivery report whose \<open>done_date\<close> does not parse raises
  \<open>ValueError\<close> before the lookup, leaving the state as it was.
\<close>

theorem correlation_miss_logged_and_discarded:
  "(kwargs ''message_id'' = Some smsc_id \<and> kwargs ''sequence_number'' = Some seq \<and>
    r_get_id_for_sequence s seq = None \<longrightarrow>
      (let res = submit_sm_resp cfg from_json kwargs s
       in fst res = None \<and> redis (snd res) = redis s \<and> expiry (snd res) = expiry s \<and>
          throttled (snd res) = throttled s \<and>
          emitted s (snd res) = [Log Err ''Sequence number lookup failed for:%s''])) \<and>
   (report_kwargs ''delivery_report'' = Some report \<and>
    map_of report ''done_date'' = Some (PStr done_date) \<and> strptime done_date = Some date \<and>
    map_of report ''stat'' = Some stat \<and> map_of report ''id'' = Some third_party_id \<and>
    r_get_id_for_third_party_id s third_party_id = None \<longrightarrow>
      (let res = delivery_report strptime report_kwargs s
       in fst res = None \<and> redis (snd res) = redis s \<and> expiry (snd res) = expiry s \<and>
          throttled (snd res) = throttled s \<and>
          emitted s (snd res) =
            [Log Warning ''Failed to retrieve message id for delivery report. Delivery report from %s discarded.''])) \<and>
   (report_kwargs ''delivery_report'' = Some report \<and>
    map_of report ''done_date'' = Some (PStr done_date) \<and> strptime done_date = None \<longrightarrow>
      delivery_report strptime report_kwargs s = (Some ValueError, s))"
  by (simp add: submit_sm_resp_def delivery_report_def parse_done_date_def emit_fields
        emitted_def Let_def)

theorem correlation_miss_logged_and_discarded_witness:
  "(let res = submit_sm_resp default_config sample_from_json (sample_resp ''SM1'' 9999 ''ESME_ROK'')
                sample_state
    in fst res = None \<and> redis (snd res) = redis sample_state \<and>
       expiry (snd res) = expiry sample_state \<and> throttled (snd res) = throttled sample_state \<and>
       emitted sample_state (snd res) = [Log Err ''Sequence number lookup failed for:%s'']) \<and>
   (let res = delivery_report sample_strptime (sample_report ''SM9'' ''130101120500'') sample_state
    in fst res = None \<and> redis (snd res) = redis sample_state \<and>
       expiry (snd res) = expiry sample_state \<and> throttled (snd res) = throttled sample_state \<and>
       emitted sample_state (snd res) =
         [Log Warning ''Failed to retrieve message id for delivery report. Delivery report from %s discarded.''])"
proof -
  have a: "sample_resp ''SM1'' 9999 ''ESME_ROK'' ''message_id'' = Some (PStr ''SM1'') \<and>
           sample_resp ''SM1'' 9999 ''ESME_ROK'' ''sequence_number'' = Some (PInt 9999) \<and>
           r_get_id_for_sequence sample_state (PInt 9999) = None"
    by (simp add: eval_defs)
  have b: "sample_report ''SM9'' ''130101120500'' ''delivery_report'' =
             Some [(''id'', PStr ''SM9''), (''sub'', PStr ''001''), (''dlvrd'', PStr ''001''),
                   (''submit_date'', PStr ''130101120000''), (''done_date'', PStr ''130101120500''),
                   (''stat'', PStr ''DELIVRD''), (''err'', PStr ''000''), (''text'', PStr ''hi'')]"
    by (simp add: sample_report_def)
  have c: "sample_strptime ''130101120500'' =
             Some \<lparr>year = 2013, month = 1, day = 1, hour = 12, minute = 5, second = 0\<rparr>"
    by (simp add: sample_strptime_def digit_value_def Let_def)
  have d: "r_get_id_for_third_party_id sample_state (PStr ''SM9'') = None"
    by (simp add: eval_defs)
  show ?thesis
    using a b c d
      correlation_miss_logged_and_discarded
        [of "sample_resp ''SM1'' 9999 ''ESME_ROK''" "PStr ''SM1''" "PInt 9999" sample_state
            default_config sample_from_json "sample_report ''SM9'' ''130101120500''"
            "[(''id'', PStr ''SM9''), (''sub'', PStr ''001''), (''dlvrd'', PStr ''001''),
              (''submit_date'', PStr ''130101120000''), (''done_date'', PStr ''130101120500''),
              (''stat'', PStr ''DELIVRD''), (''err'', PStr ''000''), (''text'', PStr ''hi'')]"
            "''130101120500''" sample_strptime
            "\<lparr>year = 2013, month = 1, day = 1, hour = 12, minute = 5, second = 0\<rparr>"
            "PStr ''DELIVRD''" "PStr ''SM9''"]
    by simp
qed

text \<open>
  C6 as stated fails: a delivery report with an unknown third-party id and an empty
  \<open>done_date\<close> (which the default pattern admits) is not logged; the handler raises.
\<close>

theorem delivery_report_miss_not_logged_counterexample:
  "r_get_id_for_third_party_id sample_state (PStr ''SM9'') = None \<and>
   delivery_report sample_strptime (sample_report ''SM9'' []) sample_state
     = (Some ValueError, sample_state)"
  by (simp add: delivery_report_def parse_done_date_def sample_strptime_def sample_report_def
        eval_defs)

text \<open>
  C7: for every deliver_sm that carries the four mandatory fields, the published
  inbound message has to_addr = destination_addr, from_addr = source_addr, content =
  short_message and transport_type = message_type, or \<open>sms\<close> when that is absent;
  for message_type \<open>ussd\<close> the session events \<open>new\<close>, \<open>continue\<close> and \<open>close\<close>
  become NEW, RESUME and CLOSE, and session_info is copied into transport_metadata.
\<close>

theorem deliver_sm_builds_inbound_message:
  assumes "kwargs ''message_id'' = Some mid"
      and "kwargs ''destination_addr'' = Some dst"
      and "kwargs ''source_addr'' = Some src"
      and "kwargs ''short_message'' = Some txt"
      and "mtype = (case kwargs ''message_type'' of None \<Rightarrow> PStr ''sms'' | Some v \<Rightarrow> v)"
      and "m = \<lparr>message_id = mid, to_addr = dst, from_addr = src, content = txt,
                 transport_type = mtype, session_event = None, transport_metadata = []\<rparr>"
      and "info = (case kwargs ''session_info'' of None \<Rightarrow> PNone | Some v \<Rightarrow> v)"
      and "ussd = (\<lambda>ev. (None, emit [Log Msg ''PUBLISHING INBOUND: %s'',
                     PublishMessage (m\<lparr>session_event := Some ev,
                                       transport_metadata := [(''session_info'', info)]\<rparr>)] s))"
  shows "(mtype \<noteq> PStr ''ussd'' \<longrightarrow>
            deliver_sm kwargs s =
              (None, emit [Log Msg ''PUBLISHING INBOUND: %s'', PublishMessage m] s)) \<and>
         (mtype = PStr ''ussd'' \<and> kwargs ''session_event'' = Some (PStr ''new'') \<longrightarrow>
            deliver_sm kwargs s = ussd SESSION_NEW) \<and>
         (mtype = PStr ''ussd'' \<and> kwargs ''session_event'' = Some (PStr ''continue'') \<longrightarrow>
            deliver_sm kwargs s = ussd SESSION_RESUME) \<and>
         (mtype = PStr ''ussd'' \<and> kwargs ''session_event'' = Some (PStr ''close'') \<longrightarrow>
            deliver_sm kwargs s = ussd SESSION_CLOSE)"
  using assms
  by (simp add: deliver_sm_def kwargs_get_def publish_inbound_def session_event_table_def Let_def)

theorem deliver_sm_builds_inbound_message_witness:
  "deliver_sm (sample_deliver(''message_type'' \<mapsto> PStr ''ussd'',
                 ''session_event'' \<mapsto> PStr ''continue'', ''session_info'' \<mapsto> PStr ''xyz''))
     sample_state =
     (None, emit [Log Msg ''PUBLISHING INBOUND: %s'',
                  PublishMessage \<lparr>message_id = PStr ''in1'', to_addr = PStr ''27999'',
                     from_addr = PStr ''27761234567'', content = PStr ''hello'',
                     transport_type = PStr ''ussd'', session_event = Some SESSION_RESUME,
                     transport_metadata = [(''session_info'', PStr ''xyz'')]\<rparr>] sample_state) \<and>
   deliver_sm sample_deliver sample_state =
     (None, emit [Log Msg ''PUBLISHING INBOUND: %s'',
                  PublishMessage \<lparr>message_id = PStr ''in1'', to_addr = PStr ''27999'',
                     from_addr = PStr ''27761234567'', content = PStr ''hello'',
                     transport_type = PStr ''sms'', session_event = None,
                     transport_metadata = []\<rparr>] sample_state)"
  using deliver_sm_builds_inbound_message
    [of "sample_deliver(''message_type'' \<mapsto> PStr ''ussd'',
           ''session_event'' \<mapsto> PStr ''continue'', ''session_info'' \<mapsto> PStr ''xyz'')"
        "PStr ''in1''" "PStr ''27999''" "PStr ''27761234567''" "PStr ''hello''"
        "PStr ''ussd''" _ "PStr ''xyz''" _ sample_state, OF _ _ _ _ _ refl _ refl]
    deliver_sm_builds_inbound_message
    [of sample_deliver "PStr ''in1''" "PStr ''27999''" "PStr ''27761234567''" "PStr ''hello''"
        "PStr ''sms''" _ PNone _ sample_state, OF _ _ _ _ _ refl _ refl]
  by (simp add: sample_deliver_def)

text \<open>
  C8: whenever \<open>send_smpp\<close> issues submit_sm, its source_addr is the value of the
  operator resolver on to_addr, COUNTRY_CODE, OPERATOR_PREFIX and OPERATOR_NUMBER when
  that value is a source number (a non-empty result), and the message's from_addr
  otherwise; it issues submit_sm for every message with text content.
\<close>

theorem send_smpp_source_addr:
  assumes "route = resolver (to_addr m) (COUNTRY_CODE cfg) (OPERATOR_PREFIX cfg) (OPERATOR_NUMBER cfg)"
  shows "(\<forall>args. send_smpp cfg resolver m = Inr args \<longrightarrow>
            (truthy route \<longrightarrow> source_addr args = route) \<and>
            (\<not> truthy route \<longrightarrow> source_addr args = from_addr m)) \<and>
         (\<forall>txt. content m = PStr txt \<longrightarrow> (\<exists>args. send_smpp cfg resolver m = Inr args))"
  using assms
  by (auto simp: send_smpp_def encode_utf8_def py_or_def Let_def split: sum.splits pyval.splits)

theorem send_smpp_source_addr_witness:
  "(\<exists>args. send_smpp sample_operator_config get_operator_number (sample_message ''m1'') = Inr args \<and>
      source_addr args = PStr ''27999'') \<and>
   (\<exists>args. send_smpp default_config get_operator_number (sample_message ''m1'') = Inr args \<and>
      source_addr args = PStr ''27700000000'')"
proof -
  have r1: "get_operator_number (to_addr (sample_message ''m1''))
              (COUNTRY_CODE sample_operator_config) (OPERATOR_PREFIX sample_operator_config)
              (OPERATOR_NUMBER sample_operator_config) = PStr ''27999''"
    by (simp add: get_operator_number_def normalize_msisdn_def sample_operator_config_def
          default_config_def sample_message_def Let_def)
  have r2: "get_operator_number (to_addr (sample_message ''m1''))
              (COUNTRY_CODE default_config) (OPERATOR_PREFIX default_config)
              (OPERATOR_NUMBER default_config) = PNone"
    by (simp add: get_operator_number_def normalize_msisdn_def
          default_config_def sample_message_def Let_def)
  have c: "content (sample_message ''m1'') = PStr ''hi''"
    "from_addr (sample_message ''m1'') = PStr ''27700000000''"
    by (simp_all add: sample_message_def)
  show ?thesis
    using send_smpp_source_addr
        [where resolver = get_operator_number and cfg = sample_operator_config
           and m = "sample_message ''m1''", OF refl]
      send_smpp_source_addr
        [where resolver = get_operator_number and cfg = default_config
           and m = "sample_message ''m1''", OF refl]
    by (auto simp: r1 r2 c)
qed

text \<open>
  C9: for a deliver_sm with message_type \<open>ussd\<close> whose session_event is absent or
  is not one of \<open>new\<close>, \<open>continue\<close>, \<open>close\<close>, the handler raises a KeyError and
  the state is as before: nothing was logged or published. With the mandatory fields
  present the error is the one of the session_event lookup.
\<close>

theorem ussd_session_event_unguarded:
  assumes "kwargs ''message_type'' = Some (PStr ''ussd'')"
      and "kwargs ''session_event'' \<notin>
             {Some (PStr ''new''), Some (PStr ''continue''), Some (PStr ''close'')}"
  shows "(\<exists>k. deliver_sm kwargs s = (Some (KeyError k), s)) \<and>
         (kwargs ''message_id'' \<noteq> None \<and> kwargs ''destination_addr'' \<noteq> None \<and>
          kwargs ''source_addr'' \<noteq> None \<and> kwargs ''short_message'' \<noteq> None \<longrightarrow>
            deliver_sm kwargs s =
              (Some (KeyError (case kwargs ''session_event'' of
                                 None \<Rightarrow> PStr ''session_event'' | Some ev \<Rightarrow> ev)), s))"
  using assms
  by (auto simp: deliver_sm_def kwargs_get_def session_event_table_def Let_def
        split: option.splits)

theorem ussd_session_event_unguarded_witness:
  "deliver_sm (sample_deliver(''message_type'' \<mapsto> PStr ''ussd'')) sample_state =
     (Some (KeyError (PStr ''session_event'')), sample_state) \<and>
   deliver_sm (sample_deliver(''message_type'' \<mapsto> PStr ''ussd'',
                 ''session_event'' \<mapsto> PStr ''resume'')) sample_state =
     (Some (KeyError (PStr ''resume'')), sample_state)"
  using ussd_session_event_unguarded
    [of "sample_deliver(''message_type'' \<mapsto> PStr ''ussd'')" sample_state]
    ussd_session_event_unguarded
    [of "sample_deliver(''message_type'' \<mapsto> PStr ''ussd'', ''session_event'' \<mapsto> PStr ''resume'')"
        sample_state]
  by (simp add: sample_deliver_def)

text \<open>
  C10: \<open>submit_sm_failure\<close> ignores its failure_code argument, and every failure
  record it emits has failure_code \<open>None\<close>.
\<close>

theorem failure_record_has_no_failure_code:
  "submit_sm_failure from_json uid reason failure_code s =
     submit_sm_failure from_json uid reason PNone s \<and>
   (\<forall>e \<in> set (emitted s (snd (submit_sm_failure from_json uid reason failure_code s))).
      \<forall>m code r. e = PublishFailure m code r \<longrightarrow> code = PNone)"
proof -
  have "emitted s (snd (submit_sm_failure from_json uid reason failure_code s)) \<in>
          {[], [Log Err ''Could not retrieve failed message:%s'']} \<union>
          {[PublishNack uid reason, PublishFailure m PNone reason] | m. True}"
    by (auto simp: submit_sm_failure_def emitted_def emit_fields r_delete_message_fields
             split: sum.splits option.splits)
  then show ?thesis
    by (auto simp: submit_sm_failure_def)
qed

theorem failure_record_has_no_failure_code_witness:
  "PublishFailure (sample_message ''m1'') PNone (PStr ''ESME_RSYSERR'') \<in>
     set (emitted sample_state
            (snd (submit_sm_failure sample_from_json ''m1'' (PStr ''ESME_RSYSERR'') (PInt 8) sample_state))) \<and>
   submit_sm_failure sample_from_json ''m1'' (PStr ''ESME_RSYSERR'') (PInt 8) sample_state =
     submit_sm_failure sample_from_json ''m1'' (PStr ''ESME_RSYSERR'') PNone sample_state"
proof -
  have "emitted sample_state
          (snd (submit_sm_failure sample_from_json ''m1'' (PStr ''ESME_RSYSERR'') (PInt 8) sample_state))
        = [PublishNack ''m1'' (PStr ''ESME_RSYSERR''),
           PublishFailure (sample_message ''m1'') PNone (PStr ''ESME_RSYSERR'')]"
    by (simp add: eval_defs emitted_def)
  then show ?thesis
    using failure_record_has_no_failure_code
      [of sample_from_json "''m1''" "PStr ''ESME_RSYSERR''" "PInt 8" sample_state]
    by simp
qed

end
